theory Spec2Isabelle
  imports Complex_Main "HOL-Library.Word"
begin

unbundle bit_operations_syntax

section \<open>Shallow embedding of \<^verbatim>\<open>lenovo_fix.py\<close>\<close>

text \<open>
  Conventions of the embedding.
  \<^item> Python integers are unbounded: they are \<open>int\<close>, with \<open>|\<close>, \<open>&\<close>, \<open><<\<close> and
    \<open>>>\<close> as \<open>OR\<close>, \<open>AND\<close>, \<open>push_bit\<close> and \<open>drop_bit\<close> (two's complement on both sides).
  \<^item> A Python float is modelled by the rational number it denotes (\<open>rat\<close>), so only
    finite floats are covered. The products and quotients by a power of two that the
    source computes (\<open>1.0 / 2**k\<close>, \<open>(2**Y) * (1. + Z / 4.) * time_unit\<close>,
    \<open>w / power_unit\<close>) are exact in binary floating point for the ranges involved; the
    product \<open>offset * 1.024\<close> and the difference \<open>critical_temp - trip\<close> are taken
    exactly, where the float result may differ in the last bit.
  \<^item> Every \<open>raise\<close> and every failing \<open>assert\<close> is a value \<open>Inl e\<close> of a sum type.
  \<^item> The hardware is read through a function from register address to the raw 64-bit
    value of logical core 0, and written by appending to a trace of write events.
    Device errors (\<open>sys.exit(1)\<close> in \<open>readmsr\<close>/\<open>writemsr\<close>) are outside the model.
\<close>

subsection \<open>Constants and errors\<close>

datatype error = ValueError | AssertionError | KeyError | IndexError | TypeError

datatype plane = CORE | GPU | CACHE | UNCORE | ANALOGIO

fun VOLTAGE_PLANES :: "plane \<Rightarrow> int" where
  "VOLTAGE_PLANES CORE = 0"
| "VOLTAGE_PLANES GPU = 1"
| "VOLTAGE_PLANES CACHE = 2"
| "VOLTAGE_PLANES UNCORE = 3"
| "VOLTAGE_PLANES ANALOGIO = 4"

text \<open>The iteration order of the dictionary \<open>VOLTAGE_PLANES\<close> is its insertion order.\<close>

definition plane_order :: "plane list" where
  "plane_order = [CORE, GPU, CACHE, UNCORE, ANALOGIO]"

definition TRIP_TEMP_RANGE_init :: "int \<times> int" where
  "TRIP_TEMP_RANGE_init = (40, 97)"

definition C_TDP_RANGE :: "int \<times> int" where
  "C_TDP_RANGE = (0, 2)"

subsection \<open>Reading a bit range of a register: \<open>readmsr\<close>\<close>

text \<open>
  \<open>readmsr(msr, from_bit, to_bit, cpu=0)\<close>: the mask is \<open>sum(2**x for x in
  range(from_bit, to_bit + 1))\<close> and the result \<open>(val & mask) >> from_bit\<close>. Every call
  of the source passes literal bounds with \<open>from_bit \<le> to_bit\<close>, so the exit on
  \<open>from_bit > to_bit\<close> is never taken.
\<close>

type_synonym msr_file = "int \<Rightarrow> int"

definition readmsr :: "msr_file \<Rightarrow> int \<Rightarrow> nat \<Rightarrow> nat \<Rightarrow> int" where
  "readmsr hw msr from_bit to_bit =
     (let val = hw msr;
          mask = sum_list (map (\<lambda>x. 2 ^ x) [from_bit..<to_bit + 1])
      in drop_bit from_bit (val AND mask))"

subsection \<open>Rounding: \<open>int(round(x))\<close>\<close>

text \<open>Python 3 rounds a float to the nearest integer, a tie to the even neighbour.\<close>

definition py_round :: "rat \<Rightarrow> int" where
  "py_round x =
     (let f = \<lfloor>x\<rfloor>; d = x - of_int f
      in if d < 1 / 2 then f
         else if 1 / 2 < d then f + 1
         else if even f then f else f + 1)"

subsection \<open>The time-window encoder: \<open>calc_time_window_vars\<close>\<close>

text \<open>
  The two nested \<open>for\<close> loops, each as a recursion over the list of the values its
  \<open>range\<close> still has to visit; \<open>return\<close> leaves both loops at once.
\<close>

fun tw_loop_Z :: "rat \<Rightarrow> rat \<Rightarrow> nat \<Rightarrow> nat list \<Rightarrow> (nat \<times> nat) option" where
  "tw_loop_Z t time_unit Y [] = None"
| "tw_loop_Z t time_unit Y (Z # Zs) =
     (if t \<le> (2 ^ Y) * (1 + of_nat Z / 4) * time_unit then Some (Y, Z)
      else tw_loop_Z t time_unit Y Zs)"

fun tw_loop_Y :: "rat \<Rightarrow> rat \<Rightarrow> nat list \<Rightarrow> (nat \<times> nat) option" where
  "tw_loop_Y t time_unit [] = None"
| "tw_loop_Y t time_unit (Y # Ys) =
     (case tw_loop_Z t time_unit Y [0..<2 ^ 2] of
        Some r \<Rightarrow> Some r
      | None \<Rightarrow> tw_loop_Y t time_unit Ys)"

definition time_unit_of :: "msr_file \<Rightarrow> rat" where
  "time_unit_of hw = 1 / 2 ^ nat (readmsr hw 0x606 16 19)"

definition calc_time_window_vars :: "msr_file \<Rightarrow> rat \<Rightarrow> error + (nat \<times> nat)" where
  "calc_time_window_vars hw t =
     (let time_unit = time_unit_of hw
      in case tw_loop_Y t time_unit [0..<2 ^ 5] of
           Some r \<Rightarrow> Inr r
         | None \<Rightarrow> Inl ValueError)"

subsection \<open>The undervolt encoder: \<open>calc_undervolt_msr\<close>\<close>

text \<open>
  The plane is a key of \<open>VOLTAGE_PLANES\<close> by its type, so the second \<open>assert\<close> cannot
  fail. \<open>1.024\<close> is the rational \<open>128 / 125\<close>.
\<close>

definition calc_undervolt_msr :: "plane \<Rightarrow> rat \<Rightarrow> error + int" where
  "calc_undervolt_msr plane offset =
     (if \<not> offset \<le> 0 then Inl AssertionError
      else
        let offset1 = py_round (offset * (128 / 125));
            offset2 = 0xFFE00000 AND (push_bit 21 (offset1 AND 0xFFF))
        in Inr ((0x8000001100000000 OR push_bit 40 (VOLTAGE_PLANES plane)) OR offset2))"

subsection \<open>The configuration and \<open>load_config\<close>\<close>

text \<open>
  The parsed configuration file: one section for each power source, the section
  \<open>UNDERVOLT\<close> and the flag \<open>Enabled\<close> of the section \<open>GENERAL\<close>. Option names are
  case-insensitive in \<open>configparser\<close>, so \<open>PL2_Duration_S\<close> and \<open>PL2_Duration_s\<close> are
  one option. The options read with a fallback (\<open>cTDP\<close>, \<open>HWP_Mode\<close>) are optional.
\<close>

datatype power_source = AC | BATTERY

record source_config =
  Update_Rate_s :: rat
  PL1_Tdp_W :: rat
  PL1_Duration_s :: rat
  PL2_Tdp_W :: rat
  PL2_Duration_s :: rat
  Trip_Temp_C :: rat
  cTDP :: "int option"
  HWP_Mode :: "bool option"

record config =
  section_of :: "power_source \<Rightarrow> source_config"
  UNDERVOLT :: "plane \<Rightarrow> rat"
  Enabled :: bool

text \<open>The float literal \<open>0.1\<close> denotes this rational number.\<close>

definition float_0_1 :: rat where
  "float_0_1 = 3602879701896397 / 36028797018963968"

text \<open>
  The body of the loop over the power sources: the five options are raised to at least
  \<open>0.1\<close>, the trip temperature is clamped into \<open>TRIP_TEMP_RANGE\<close> as it is at that
  moment.
\<close>

definition load_config_source :: "int \<times> int \<Rightarrow> source_config \<Rightarrow> source_config" where
  "load_config_source TRIP_TEMP_RANGE c =
     (let c1 = c\<lparr>Update_Rate_s := max float_0_1 (Update_Rate_s c),
                 PL1_Tdp_W := max float_0_1 (PL1_Tdp_W c),
                 PL1_Duration_s := max float_0_1 (PL1_Duration_s c),
                 PL2_Tdp_W := max float_0_1 (PL2_Tdp_W c),
                 PL2_Duration_s := max float_0_1 (PL2_Duration_s c)\<rparr>;
          trip_temp = Trip_Temp_C c1;
          valid_trip_temp =
            min (of_int (snd TRIP_TEMP_RANGE)) (max (of_int (fst TRIP_TEMP_RANGE)) trip_temp)
      in if trip_temp \<noteq> valid_trip_temp then c1\<lparr>Trip_Temp_C := valid_trip_temp\<rparr> else c1)"

definition load_config_plane :: "config \<Rightarrow> plane \<Rightarrow> config" where
  "load_config_plane cfg plane =
     (let value = UNDERVOLT cfg plane;
          valid_value = min 0 value
      in if value \<noteq> valid_value
         then cfg\<lparr>UNDERVOLT := (UNDERVOLT cfg)(plane := valid_value)\<rparr>
         else cfg)"

definition load_config :: "int \<times> int \<Rightarrow> config \<Rightarrow> config" where
  "load_config TRIP_TEMP_RANGE cfg =
     (let cfg1 = foldl (\<lambda>c power_source.
                    c\<lparr>section_of := (section_of c)
                        (power_source := load_config_source TRIP_TEMP_RANGE (section_of c power_source))\<rparr>)
                  cfg [AC, BATTERY]
      in foldl load_config_plane cfg1 plane_order)"

subsection \<open>The register values: \<open>calc_reg_values\<close>\<close>

datatype reg_name = MSR_TEMPERATURE_TARGET | MSR_PKG_POWER_LIMIT | MSR_CONFIG_TDP_CONTROL

type_synonym regs = "power_source \<Rightarrow> (reg_name \<rightharpoonup> int)"

definition power_unit_of :: "msr_file \<Rightarrow> rat" where
  "power_unit_of hw = 1 / 2 ^ nat (readmsr hw 0x606 0 3)"

text \<open>
  One pass of the loop over the power sources. The state of the pass is the dictionary
  \<open>regs\<close> and the global \<open>TRIP_TEMP_RANGE\<close>, whose upper end the pass updates.
\<close>

definition calc_reg_values_source ::
  "msr_file \<Rightarrow> config \<Rightarrow> power_source \<Rightarrow> regs \<times> (int \<times> int) \<Rightarrow> error + regs \<times> (int \<times> int)" where
  "calc_reg_values_source hw cfg power_source st =
     (let regs = fst st; TRIP_TEMP_RANGE = snd st; c = section_of cfg power_source;
          st1 =
            (if readmsr hw 0xce 30 30 \<noteq> 1 then (regs, TRIP_TEMP_RANGE)
             else
               let critical_temp = readmsr hw 0x1a2 16 23;
                   TRIP_TEMP_RANGE1 =
                     (fst TRIP_TEMP_RANGE, min (snd TRIP_TEMP_RANGE) (critical_temp - 3));
                   trip_offset = py_round (of_int critical_temp - Trip_Temp_C c)
               in (regs(power_source :=
                     (regs power_source)(MSR_TEMPERATURE_TARGET \<mapsto> push_bit 24 trip_offset)),
                   TRIP_TEMP_RANGE1));
          regs1 = fst st1;
          power_unit = power_unit_of hw;
          PL1 = py_round (PL1_Tdp_W c / power_unit)
      in case calc_time_window_vars hw (PL1_Duration_s c) of
           Inl e \<Rightarrow> Inl e
         | Inr (Y1, Z1) \<Rightarrow>
             let TW1 = int Y1 OR push_bit 5 (int Z1);
                 PL2 = py_round (PL2_Tdp_W c / power_unit)
             in case calc_time_window_vars hw (PL2_Duration_s c) of
                  Inl e \<Rightarrow> Inl e
                | Inr (Y2, Z2) \<Rightarrow>
                    let TW2 = int Y2 OR push_bit 5 (int Z2);
                        regs2 = regs1(power_source := (regs1 power_source)(MSR_PKG_POWER_LIMIT \<mapsto>
                          (((((PL1 OR push_bit 15 1) OR push_bit 17 TW1) OR push_bit 32 PL2)
                             OR push_bit 47 1) OR push_bit 49 TW2)));
                        regs3 =
                          (case cTDP c of
                             None \<Rightarrow> regs2
                           | Some c_tdp_target_value \<Rightarrow>
                               if readmsr hw 0xce 33 34 < 2 then regs2
                               else regs2(power_source := (regs2 power_source)(MSR_CONFIG_TDP_CONTROL \<mapsto>
                                 min (snd C_TDP_RANGE) (max (fst C_TDP_RANGE) c_tdp_target_value))))
                    in Inr (regs3, snd st1))"

fun calc_reg_values_loop ::
  "msr_file \<Rightarrow> config \<Rightarrow> power_source list \<Rightarrow> regs \<times> (int \<times> int) \<Rightarrow> error + regs \<times> (int \<times> int)" where
  "calc_reg_values_loop hw cfg [] st = Inr st"
| "calc_reg_values_loop hw cfg (power_source # rest) st =
     (case calc_reg_values_source hw cfg power_source st of
        Inl e \<Rightarrow> Inl e
      | Inr st1 \<Rightarrow> calc_reg_values_loop hw cfg rest st1)"

text \<open>\<open>regs\<close> starts as an empty \<open>defaultdict(dict)\<close>: every source has the empty dictionary.\<close>

definition calc_reg_values :: "msr_file \<Rightarrow> config \<Rightarrow> int \<times> int \<Rightarrow> error + regs \<times> (int \<times> int)" where
  "calc_reg_values hw cfg TRIP_TEMP_RANGE =
     calc_reg_values_loop hw cfg [AC, BATTERY] (\<lambda>_. Map.empty, TRIP_TEMP_RANGE)"

text \<open>
  The two calls at the start of \<open>main\<close>: the configuration is loaded with the initial
  \<open>TRIP_TEMP_RANGE\<close>, then the registers are computed. The result holds the loaded
  configuration, the registers and the range as \<open>calc_reg_values\<close> leaves it.
\<close>

definition startup :: "msr_file \<Rightarrow> config \<Rightarrow> error + config \<times> regs \<times> (int \<times> int)" where
  "startup hw raw =
     (let cfg = load_config TRIP_TEMP_RANGE_init raw
      in case calc_reg_values hw cfg TRIP_TEMP_RANGE_init of
           Inl e \<Rightarrow> Inl e
         | Inr (regs, TRIP_TEMP_RANGE) \<Rightarrow> Inr (cfg, regs, TRIP_TEMP_RANGE))"

subsection \<open>Hardware writes\<close>

text \<open>
  What the program writes, in order: \<open>writemsr\<close> writes the value to the register file
  of each logical core in turn (\<open>cpu_count()\<close> of them), \<open>mchbar_mmio.write32\<close> writes
  one 32-bit half of the memory-mapped register, \<open>set_hwp\<close> writes the preference of each
  core. Reads and prints (the \<open>args.debug\<close> branches of \<open>power_thread\<close>) leave no event.
\<close>

datatype hw_write =
    WriteMsr nat int int
  | Write32 int int
  | WriteHwp nat string

definition writemsr :: "nat \<Rightarrow> int \<Rightarrow> int \<Rightarrow> hw_write list \<Rightarrow> hw_write list" where
  "writemsr cpu_count msr val trace = trace @ map (\<lambda>cpu. WriteMsr cpu msr val) [0..<cpu_count]"

definition set_hwp :: "nat \<Rightarrow> string \<Rightarrow> hw_write list \<Rightarrow> hw_write list" where
  "set_hwp cpu_count pref trace = trace @ map (\<lambda>i. WriteHwp i pref) [0..<cpu_count]"


subsection \<open>The shared power state and the control loop: \<open>power_thread\<close>\<close>

text \<open>
  \<open>power = {'source': None, 'method': 'polling'}\<close> (the field \<open>power_method\<close> is
  the entry \<open>'method'\<close>); \<open>main\<close> sets \<open>source\<close> from the
  line-power file before the thread and the callbacks exist, so \<open>source\<close> is one of
  the two power sources in every state below.
\<close>

datatype detection = polling | dbus

record power_state =
  source :: power_source
  power_method :: detection

record system_state =
  power :: power_state
  writes :: "hw_write list"
  thread_error :: "error option"

text \<open>
  What one pass of the \<open>while\<close> loop reads from outside: the line-power file at the
  top of the pass, the CPU usage and the line-power file again in the HWP branch.
\<close>

record tick_env =
  on_battery_first :: bool
  cpu_usage :: rat
  on_battery_second :: bool

text \<open>
  One pass of the loop body, taken as one step (the pass reads \<open>power['source']\<close>
  several times; a callback between two of these reads is not modelled). A missing
  \<open>MSR_PKG_POWER_LIMIT\<close> entry raises \<open>KeyError\<close>, which ends the thread.
\<close>

definition power_thread_tick ::
  "nat \<Rightarrow> config \<Rightarrow> regs \<Rightarrow> tick_env \<Rightarrow> system_state \<Rightarrow> system_state" where
  "power_thread_tick cpu_count cfg regs env s =
     (let power1 =
            (if power_method (power s) = polling
             then (power s)\<lparr>source := (if on_battery_first env then BATTERY else AC)\<rparr>
             else power s);
          src = source power1;
          trace1 =
            (case regs src MSR_TEMPERATURE_TARGET of
               Some write_value \<Rightarrow> writemsr cpu_count 0x1a2 write_value (writes s)
             | None \<Rightarrow> writes s);
          trace2 =
            (case regs src MSR_CONFIG_TDP_CONTROL of
               Some write_value \<Rightarrow> writemsr cpu_count 0x64b write_value trace1
             | None \<Rightarrow> trace1)
      in case regs src MSR_PKG_POWER_LIMIT of
           None \<Rightarrow> \<lparr>power = power1, writes = trace2, thread_error = Some KeyError\<rparr>
         | Some write_value \<Rightarrow>
             let trace3 = writemsr cpu_count 0x610 write_value trace2;
                 trace4 = trace3 @ [Write32 0 (write_value AND 0xffffffff)];
                 trace5 = trace4 @ [Write32 4 (drop_bit 32 write_value)];
                 enable_hwp_mode = (case HWP_Mode (section_of cfg AC) of Some b \<Rightarrow> b | None \<Rightarrow> False);
                 trace6 =
                   (if src = AC \<and> enable_hwp_mode then
                      let performance_mode = (100 / (of_nat cpu_count * (5 / 4)) < cpu_usage env)
                      in if \<not> on_battery_second env
                         then set_hwp cpu_count
                                (if performance_mode then ''performance'' else ''balance_performance'')
                                trace5
                         else trace5
                    else trace5)
             in \<lparr>power = power1, writes = trace6, thread_error = None\<rparr>)"

subsection \<open>Applying the undervolt: \<open>undervolt\<close>\<close>

text \<open>
  The loop over the planes; a failing \<open>assert\<close> of \<open>calc_undervolt_msr\<close> leaves the
  loop with the writes made so far. In debug mode the loop also writes the read request
  of the plane.
\<close>

fun undervolt_loop ::
  "nat \<Rightarrow> bool \<Rightarrow> config \<Rightarrow> plane list \<Rightarrow> hw_write list \<Rightarrow> error option \<times> hw_write list" where
  "undervolt_loop cpu_count debug cfg [] trace = (None, trace)"
| "undervolt_loop cpu_count debug cfg (plane # planes) trace =
     (case calc_undervolt_msr plane (UNDERVOLT cfg plane) of
        Inl e \<Rightarrow> (Some e, trace)
      | Inr write_value \<Rightarrow>
          let trace1 = writemsr cpu_count 0x150 write_value trace;
              trace2 =
                (if debug
                 then writemsr cpu_count 0x150
                        (0x8000001000000000 OR push_bit 40 (VOLTAGE_PLANES plane)) trace1
                 else trace1)
          in undervolt_loop cpu_count debug cfg planes trace2)"

definition undervolt :: "nat \<Rightarrow> bool \<Rightarrow> config \<Rightarrow> hw_write list \<Rightarrow> error option \<times> hw_write list" where
  "undervolt cpu_count debug cfg trace = undervolt_loop cpu_count debug cfg plane_order trace"

subsection \<open>The callbacks of the event listener\<close>

text \<open>
  The arguments of a bus signal are values of the bus types. \<open>args[1]['Online']\<close>
  raises \<open>IndexError\<close> when there is no second argument, \<open>TypeError\<close> when the second
  argument is not a dictionary, and \<open>KeyError\<close> when the dictionary has no key
  \<open>Online\<close>.
\<close>

datatype dbus_value =
    DBusInt int
  | DBusBool bool
  | DBusDouble rat
  | DBusString string
  | DBusArray "dbus_value list"
  | DBusDict "(string \<times> dbus_value) list"

fun subscript_Online :: "dbus_value \<Rightarrow> error + dbus_value" where
  "subscript_Online (DBusDict kvs) =
     (case map_of kvs ''Online'' of None \<Rightarrow> Inl KeyError | Some v \<Rightarrow> Inr v)"
| "subscript_Online v = Inl TypeError"

definition extract_online :: "dbus_value list \<Rightarrow> error + dbus_value" where
  "extract_online args =
     (if length args < 2 then Inl IndexError else subscript_Online (args ! 1))"

text \<open>The comparison \<open>v == 0\<close>: a boolean is an integer, \<open>False\<close> being \<open>0\<close>.\<close>

fun py_eq_0 :: "dbus_value \<Rightarrow> bool" where
  "py_eq_0 (DBusInt n) = (n = 0)"
| "py_eq_0 (DBusBool b) = (\<not> b)"
| "py_eq_0 (DBusDouble x) = (x = 0)"
| "py_eq_0 v = False"

text \<open>
  The body of the \<open>try\<close>: the right-hand side of the first assignment is the only
  expression that can raise, so an exception leaves \<open>power\<close> as it was.
\<close>

definition handle_ac_callback_try :: "dbus_value list \<Rightarrow> power_state \<Rightarrow> error + power_state" where
  "handle_ac_callback_try args p =
     (case extract_online args of
        Inl e \<Rightarrow> Inl e
      | Inr online \<Rightarrow>
          let p1 = p\<lparr>source := (if py_eq_0 online then BATTERY else AC)\<rparr>;
              p2 = p1\<lparr>power_method := dbus\<rparr>
          in Inr p2)"

definition handle_ac_callback :: "dbus_value list \<Rightarrow> power_state \<Rightarrow> power_state" where
  "handle_ac_callback args p =
     (case handle_ac_callback_try args p of
        Inr p2 \<Rightarrow> p2
      | Inl e \<Rightarrow> p\<lparr>power_method := polling\<rparr>)"

definition handle_sleep_callback ::
  "nat \<Rightarrow> bool \<Rightarrow> config \<Rightarrow> bool \<Rightarrow> hw_write list \<Rightarrow> error option \<times> hw_write list" where
  "handle_sleep_callback cpu_count debug cfg sleeping trace =
     (if \<not> sleeping then undervolt cpu_count debug cfg trace else (None, trace))"

subsection \<open>The steps of the running program\<close>

text \<open>
  After start-up the state changes by passes of the control loop and by the two
  callbacks. A pass happens only while the thread has not died of an exception; an
  exception in a callback is dropped by the dispatcher.
\<close>

datatype event =
    Tick tick_env
  | AcCallback "dbus_value list"
  | SleepCallback bool

fun step :: "nat \<Rightarrow> bool \<Rightarrow> config \<Rightarrow> regs \<Rightarrow> event \<Rightarrow> system_state \<Rightarrow> system_state" where
  "step cpu_count debug cfg regs (Tick env) s =
     (if thread_error s = None then power_thread_tick cpu_count cfg regs env s else s)"
| "step cpu_count debug cfg regs (AcCallback args) s =
     s\<lparr>power := handle_ac_callback args (power s)\<rparr>"
| "step cpu_count debug cfg regs (SleepCallback sleeping) s =
     s\<lparr>writes := snd (handle_sleep_callback cpu_count debug cfg sleeping (writes s))\<rparr>"

fun run :: "nat \<Rightarrow> bool \<Rightarrow> config \<Rightarrow> regs \<Rightarrow> event list \<Rightarrow> system_state \<Rightarrow> system_state" where
  "run cpu_count debug cfg regs [] s = s"
| "run cpu_count debug cfg regs (ev # evs) s =
     run cpu_count debug cfg regs evs (step cpu_count debug cfg regs ev s)"

text \<open>A notification is malformed when the extraction of the flag raises.\<close>

fun malformed :: "event \<Rightarrow> bool" where
  "malformed (AcCallback args) = isl (extract_online args)"
| "malformed ev = False"

subsection \<open>A sample machine and a sample configuration\<close>

text \<open>
  Register values of a common mobile CPU: in \<open>0x606\<close> the power unit field is \<open>3\<close>
  (1/8 W) and the time unit field is \<open>10\<close> (1/1024 s); in \<open>0xce\<close> bit 30 is set and
  the field of bits 33 to 34 is \<open>2\<close>; in \<open>0x1a2\<close> the critical temperature is 100.
  The configuration is the one shipped with the program.
\<close>

definition example_msr :: msr_file where
  "example_msr msr =
     (if msr = 0x606 then 0xA0E03
      else if msr = 0xce then 0x440000000
      else if msr = 0x1a2 then 0x640000
      else 0)"

definition example_config :: config where
  "example_config =
     \<lparr>section_of = (\<lambda>power_source.
        case power_source of
          AC \<Rightarrow> \<lparr>Update_Rate_s = 5, PL1_Tdp_W = 44, PL1_Duration_s = 28, PL2_Tdp_W = 44,
                 PL2_Duration_s = 1 / 500, Trip_Temp_C = 95, cTDP = None, HWP_Mode = None\<rparr>
        | BATTERY \<Rightarrow> \<lparr>Update_Rate_s = 30, PL1_Tdp_W = 29, PL1_Duration_s = 28, PL2_Tdp_W = 44,
                 PL2_Duration_s = 1 / 500, Trip_Temp_C = 85, cTDP = None, HWP_Mode = None\<rparr>),
      UNDERVOLT = (\<lambda>plane. 0),
      Enabled = True\<rparr>"

text \<open>
  Two variations: a configuration that asks for 5000 W as the sustained limit on
  battery, and a machine whose critical temperature is 95.
\<close>

definition high_power_config :: config where
  "high_power_config =
     example_config\<lparr>section_of := (section_of example_config)
       (BATTERY := (section_of example_config BATTERY)\<lparr>PL1_Tdp_W := 5000\<rparr>)\<rparr>"

definition low_tjmax_msr :: msr_file where
  "low_tjmax_msr = example_msr(0x1a2 := 0x5F0000)"

section \<open>Properties\<close>

subsection \<open>The search of the time-window encoder\<close>

lemma tw_loop_Z_find:
  "tw_loop_Z t u Y Zs = map_option (Pair Y) (find (\<lambda>Z. t \<le> (2 ^ Y) * (1 + of_nat Z / 4) * u) Zs)"
  by (induction Zs) auto

lemma tw_loop_Y_find:
  "tw_loop_Y t u Ys =
     (case find (\<lambda>Y. tw_loop_Z t u Y [0..<2 ^ 2] \<noteq> None) Ys of
        None \<Rightarrow> None | Some Y \<Rightarrow> tw_loop_Z t u Y [0..<2 ^ 2])"
  by (induction Ys) (auto split: option.splits)

lemma find_upt_Some:
  "find P [0..<n] = Some x \<longleftrightarrow> x < n \<and> P x \<and> (\<forall>j<x. \<not> P j)"
  by (auto simp: find_Some_iff)

lemma find_upt_None:
  "find P [0..<n] = None \<longleftrightarrow> (\<forall>j<n. \<not> P j)"
  by (auto simp: find_None_iff)

lemma tw_loop_Z_Some:
  "tw_loop_Z t u Y [0..<n] = Some (a, Z) \<longleftrightarrow>
     a = Y \<and> Z < n \<and> t \<le> (2 ^ Y) * (1 + of_nat Z / 4) * u \<and>
     (\<forall>j<Z. \<not> t \<le> (2 ^ Y) * (1 + of_nat j / 4) * u)"
  by (auto simp: tw_loop_Z_find find_upt_Some)

lemma tw_loop_Z_None:
  "tw_loop_Z t u Y [0..<n] = None \<longleftrightarrow> (\<forall>j<n. \<not> t \<le> (2 ^ Y) * (1 + of_nat j / 4) * u)"
  by (simp add: tw_loop_Z_find find_upt_None)

lemma tw_loop_Y_cases:
  "(tw_loop_Y t u [0..<m] = None \<and> (\<forall>i<m. tw_loop_Z t u i [0..<2 ^ 2] = None)) \<or>
   (\<exists>y<m. tw_loop_Y t u [0..<m] = tw_loop_Z t u y [0..<2 ^ 2] \<and>
      tw_loop_Z t u y [0..<2 ^ 2] \<noteq> None \<and> (\<forall>i<y. tw_loop_Z t u i [0..<2 ^ 2] = None))"
proof -
  define g where "g = (\<lambda>Y. tw_loop_Z t u Y [0..<2 ^ 2])"
  define P where "P = (\<lambda>Y. g Y \<noteq> None)"
  have eq: "tw_loop_Y t u [0..<m] = (case find P [0..<m] of None \<Rightarrow> None | Some Y \<Rightarrow> g Y)"
    unfolding P_def g_def by (rule tw_loop_Y_find)
  have "(tw_loop_Y t u [0..<m] = None \<and> (\<forall>i<m. g i = None)) \<or>
   (\<exists>y<m. tw_loop_Y t u [0..<m] = g y \<and> g y \<noteq> None \<and> (\<forall>i<y. g i = None))"
  proof (cases "find P [0..<m]")
    case None
    then have "\<forall>i<m. \<not> P i" by (simp only: find_upt_None)
    then have "\<forall>i<m. g i = None" unfolding P_def by blast
    moreover from None eq have "tw_loop_Y t u [0..<m] = None" by simp
    ultimately show ?thesis by blast
  next
    case (Some y)
    then have "y < m" "P y" "\<forall>i<y. \<not> P i" unfolding find_upt_Some by blast+
    then have "y < m" "g y \<noteq> None" "\<forall>i<y. g i = None" unfolding P_def by blast+
    moreover from Some eq have "tw_loop_Y t u [0..<m] = g y" by simp
    ultimately show ?thesis by blast
  qed
  then show ?thesis by (simp only: g_def)
qed

lemma tw_loop_Y_Some:
  assumes "tw_loop_Y t u [0..<m] = Some (Y, Z)"
  shows "Y < m \<and> tw_loop_Z t u Y [0..<2 ^ 2] = Some (Y, Z) \<and>
        (\<forall>i<Y. tw_loop_Z t u i [0..<2 ^ 2] = None)"
proof -
  from tw_loop_Y_cases[of t u m] assms
  obtain y where y: "y < m" "tw_loop_Z t u y [0..<2 ^ 2] = Some (Y, Z)"
      "\<forall>i<y. tw_loop_Z t u i [0..<2 ^ 2] = None"
    by auto
  from y(2) have "Y = y" by (simp only: tw_loop_Z_Some)
  with y show ?thesis by simp
qed

lemma tw_loop_Y_None:
  assumes "\<forall>i<m. tw_loop_Z t u i [0..<2 ^ 2] = None"
  shows "tw_loop_Y t u [0..<m] = None"
  using tw_loop_Y_cases[of t u m] assms by auto

lemma tw_value_mono:
  fixes Y Z Y' Z' :: nat
  assumes "Z \<le> 3" "Y < Y'"
  shows "(2::rat) ^ Y * (1 + of_nat Z / 4) \<le> 2 ^ Y' * (1 + of_nat Z' / 4)"
proof -
  have "(1::rat) + of_nat Z / 4 \<le> 2" using assms(1) by simp
  then have "(2::rat) ^ Y * (1 + of_nat Z / 4) \<le> 2 ^ Y * 2"
    by (intro mult_left_mono) simp_all
  also have "\<dots> = 2 ^ Suc Y" by simp
  also have "\<dots> \<le> (2::rat) ^ Y'" using assms(2)
    by (intro power_increasing) simp_all
  also have "\<dots> \<le> 2 ^ Y' * (1 + of_nat Z' / 4)" by simp
  finally show ?thesis .
qed

lemma calc_time_window_vars_range:
  assumes "calc_time_window_vars hw t = Inr (Y, Z)"
  shows "Y < 32" and "Z < 4"
proof -
  from assms have run: "tw_loop_Y t (time_unit_of hw) [0..<2 ^ 5] = Some (Y, Z)"
    by (simp add: calc_time_window_vars_def split: option.splits)
  then have "Y < 2 ^ 5" and inner: "tw_loop_Z t (time_unit_of hw) Y [0..<2 ^ 2] = Some (Y, Z)"
    using tw_loop_Y_Some[of t "time_unit_of hw" "2 ^ 5" Y Z] by blast+
  then show "Y < 32" by simp
  from inner have "Z < 2 ^ 2" unfolding tw_loop_Z_Some by blast
  then show "Z < 4" by simp
qed

text \<open>
  C1. When \<open>calc_time_window_vars\<close> returns a pair \<open>(Y, Z)\<close> for a duration \<open>t\<close>, with
  \<open>u = 1 / 2 ^ k\<close> the time unit read from the capability register, then \<open>Y \<le> 31\<close>,
  \<open>Z \<le> 3\<close>, \<open>t \<le> 2 ^ Y * (1 + Z / 4) * u\<close>, and the pair is minimal: every pair
  \<open>(Y', Z')\<close> of the 32 by 4 space that satisfies the bound encodes a value at least as
  large.
\<close>

theorem calc_time_window_vars_minimal:
  assumes "calc_time_window_vars hw t = Inr (Y, Z)"
  shows "Y \<le> 31 \<and> Z \<le> 3 \<and> t \<le> 2 ^ Y * (1 + of_nat Z / 4) * time_unit_of hw \<and>
         (\<forall>Y' Z'. Y' \<le> 31 \<and> Z' \<le> 3 \<and> t \<le> 2 ^ Y' * (1 + of_nat Z' / 4) * time_unit_of hw
            \<longrightarrow> (2::rat) ^ Y * (1 + of_nat Z / 4) \<le> 2 ^ Y' * (1 + of_nat Z' / 4))"
proof -
  let ?u = "time_unit_of hw"
  from assms have run: "tw_loop_Y t ?u [0..<2 ^ 5] = Some (Y, Z)"
    by (simp add: calc_time_window_vars_def split: option.splits)
  then have Y: "Y < 2 ^ 5" and inner: "tw_loop_Z t ?u Y [0..<2 ^ 2] = Some (Y, Z)"
    and before: "\<And>i. i < Y \<Longrightarrow> tw_loop_Z t ?u i [0..<2 ^ 2] = None"
    using tw_loop_Y_Some[of t ?u "2 ^ 5" Y Z] by blast+
  from inner have Z: "Z < 2 ^ 2" and sat: "t \<le> 2 ^ Y * (1 + of_nat Z / 4) * ?u"
    and first: "\<And>j. j < Z \<Longrightarrow> \<not> t \<le> 2 ^ Y * (1 + of_nat j / 4) * ?u"
    unfolding tw_loop_Z_Some by blast+
  have minimal: "(2::rat) ^ Y * (1 + of_nat Z / 4) \<le> 2 ^ Y' * (1 + of_nat Z' / 4)"
    if "Y' \<le> 31" "Z' \<le> 3" "t \<le> 2 ^ Y' * (1 + of_nat Z' / 4) * ?u" for Y' Z'
  proof -
    have notless: "\<not> Y' < Y"
    proof
      assume "Y' < Y"
      then have "tw_loop_Z t ?u Y' [0..<2 ^ 2] = None" by (rule before)
      with that(2,3) show False by (auto simp: tw_loop_Z_None)
    qed
    show ?thesis
    proof (cases "Y' = Y")
      case True
      with first that(3) have "Z \<le> Z'" by (meson not_le)
      with True show ?thesis by (simp add: divide_right_mono)
    next
      case False
      with notless have "Y < Y'" by simp
      moreover from Z have "Z \<le> 3" by simp
      ultimately show ?thesis by (rule tw_value_mono[rotated])
    qed
  qed
  from Y Z sat minimal show ?thesis by simp
qed

theorem calc_time_window_vars_minimal_witness:
  "calc_time_window_vars example_msr 28 = Inr (14, 3) \<and>
   (14::nat) \<le> 31 \<and> (3::nat) \<le> 3 \<and>
   28 \<le> 2 ^ 14 * (1 + of_nat 3 / 4) * time_unit_of example_msr \<and>
   (2::rat) ^ 14 * (1 + of_nat 3 / 4) \<le> 2 ^ 15 * (1 + of_nat 0 / 4)"
proof -
  have run: "calc_time_window_vars example_msr 28 = Inr (14, 3)"
    by code_simp
  have other: "(15::nat) \<le> 31 \<and> (0::nat) \<le> 3 \<and>
      28 \<le> 2 ^ 15 * (1 + of_nat 0 / 4) * time_unit_of example_msr"
    by code_simp
  from calc_time_window_vars_minimal [OF run] other run show ?thesis
    by blast
qed

text \<open>
  C5. When no pair \<open>(Y, Z)\<close> with \<open>Y \<le> 31\<close> and \<open>Z \<le> 3\<close> satisfies
  \<open>t \<le> 2 ^ Y * (1 + Z / 4) * u\<close>, \<open>calc_time_window_vars\<close> raises \<open>ValueError\<close>: it
  returns no pair.
\<close>

theorem calc_time_window_vars_raises:
  assumes "\<forall>Y\<le>31. \<forall>Z\<le>3. \<not> t \<le> 2 ^ Y * (1 + of_nat Z / 4) * time_unit_of hw"
  shows "calc_time_window_vars hw t = Inl ValueError"
proof -
  have "tw_loop_Y t (time_unit_of hw) [0..<2 ^ 5] = None"
    by (rule tw_loop_Y_None) (use assms in \<open>simp add: tw_loop_Z_None\<close>)
  then show ?thesis by (simp add: calc_time_window_vars_def)
qed

lemma tw_value_le_max:
  fixes Y Z :: nat
  assumes "Y \<le> 31" "Z \<le> 3"
  shows "(2::rat) ^ Y * (1 + of_nat Z / 4) \<le> 2 ^ 31 * (7 / 4)"
proof -
  have "(2::rat) ^ Y \<le> 2 ^ 31" using assms(1) by (intro power_increasing) simp_all
  moreover have "(1::rat) + of_nat Z / 4 \<le> 7 / 4" using assms(2) by simp
  ultimately show ?thesis by (intro mult_mono) simp_all
qed

theorem calc_time_window_vars_raises_witness:
  "calc_time_window_vars example_msr 4000000 = Inl ValueError"
proof -
  have u: "time_unit_of example_msr = 1 / 1024"
    by code_simp
  have "\<forall>Y\<le>31. \<forall>Z\<le>3. \<not> 4000000 \<le> 2 ^ Y * (1 + of_nat Z / 4) * time_unit_of example_msr"
  proof (intro allI impI)
    fix Y Z :: nat
    assume "Y \<le> 31" "Z \<le> 3"
    then have "(2::rat) ^ Y * (1 + of_nat Z / 4) \<le> 2 ^ 31 * (7 / 4)"
      by (rule tw_value_le_max)
    then have "(2::rat) ^ Y * (1 + of_nat Z / 4) * (1 / 1024) \<le> 2 ^ 31 * (7 / 4) * (1 / 1024)"
      by (intro mult_right_mono) simp_all
    also have "\<dots> < (4000000::rat)" by simp
    finally show "\<not> 4000000 \<le> 2 ^ Y * (1 + of_nat Z / 4) * time_unit_of example_msr"
      by (simp add: u)
  qed
  then show ?thesis by (rule calc_time_window_vars_raises)
qed

subsection \<open>The undervolt encoder\<close>






text \<open>
  C4. \<open>calc_undervolt_msr\<close> on the plane \<open>CORE\<close> (index 0) and the offset of -50 mV
  returns \<open>0x80000011F9A00000\<close>: the rounded offset is \<open>round(-50 * 1.024) = -51\<close>, and
  the value is the header \<open>0x8000001100000000\<close>, the plane bits \<open>0 << 40\<close> and the masked
  12-bit two's-complement field of -51 at bit 21, joined by \<open>OR\<close>.
\<close>

theorem calc_undervolt_msr_core_minus_50:
  "calc_undervolt_msr CORE (- 50) = Inr 0x80000011F9A00000
   \<and> py_round (- 50 * (128 / 125)) = - 51
   \<and> (0x80000011F9A00000 :: int) =
       (0x8000001100000000 OR push_bit 40 0) OR (0xFFE00000 AND push_bit 21 ((- 51) AND 0xFFF))"
  by code_simp



subsection \<open>The power-source callback\<close>

lemma extract_online_Inr_iff:
  "extract_online args = Inr v \<longleftrightarrow>
     2 \<le> length args \<and> (\<exists>kvs. args ! 1 = DBusDict kvs \<and> map_of kvs ''Online'' = Some v)"
  by (cases "args ! 1") (auto simp: extract_online_def split: option.splits)



subsection \<open>The detection method\<close>

lemma tick_method: "power_method (power (power_thread_tick n cfg regs env s)) = power_method (power s)"
  by (simp add: power_thread_tick_def Let_def split: option.splits)

lemma step_method_cases:
  "power_method (power (step n dbg cfg regs ev s)) = power_method (power s) \<or>
   (\<exists>args. ev = AcCallback args)"
  by (cases ev) (simp_all add: tick_method)

lemma ac_callback_method:
  "power_method (handle_ac_callback args p) = (if isl (extract_online args) then polling else dbus)"
  by (cases "extract_online args") (simp_all add: handle_ac_callback_def handle_ac_callback_try_def)

text \<open>
  C7. Among the steps of the running program (passes of the control loop and
  callbacks of the event listener), a pass of the control loop never writes the
  detection method, and a step that leaves the method \<open>dbus\<close> is a malformed
  power-source notification, which sets it to \<open>polling\<close>; so along any sequence of
  steps without a malformed notification the method stays \<open>dbus\<close>.
\<close>

theorem method_leaves_dbus_only_by_malformed:
  "power_method (power (power_thread_tick n cfg regs env s)) = power_method (power s) \<and>
   (power_method (power s) = dbus \<and> power_method (power (step n dbg cfg regs ev s)) \<noteq> dbus
      \<longrightarrow> malformed ev \<and> power_method (power (step n dbg cfg regs ev s)) = polling) \<and>
   (power_method (power s) = dbus \<and> (\<forall>ev \<in> set evs. \<not> malformed ev)
      \<longrightarrow> power_method (power (run n dbg cfg regs evs s)) = dbus)"
proof (intro conjI impI)
  show "power_method (power (power_thread_tick n cfg regs env s)) = power_method (power s)"
    by (rule tick_method)
next
  assume a: "power_method (power s) = dbus \<and> power_method (power (step n dbg cfg regs ev s)) \<noteq> dbus"
  then show "malformed ev"
    by (cases ev) (auto simp: tick_method ac_callback_method split: if_splits)
  from a show "power_method (power (step n dbg cfg regs ev s)) = polling"
    by (cases "power_method (power (step n dbg cfg regs ev s))") auto
next
  assume "power_method (power s) = dbus \<and> (\<forall>ev \<in> set evs. \<not> malformed ev)"
  then show "power_method (power (run n dbg cfg regs evs s)) = dbus"
  proof (induction evs arbitrary: s)
    case Nil
    then show ?case by simp
  next
    case (Cons ev evs)
    from Cons.prems have "power_method (power (step n dbg cfg regs ev s)) = dbus"
      by (cases ev) (auto simp: tick_method ac_callback_method)
    with Cons show ?case by simp
  qed
qed

theorem method_leaves_dbus_only_by_malformed_witness:
  "malformed (AcCallback []) \<and>
   power_method (power (step 4 False example_config (\<lambda>_. Map.empty) (AcCallback [])
     \<lparr>power = \<lparr>source = AC, power_method = dbus\<rparr>, writes = [], thread_error = None\<rparr>)) = polling"
proof -
  let ?s = "\<lparr>power = \<lparr>source = AC, power_method = dbus\<rparr>, writes = [], thread_error = None\<rparr>"
  have left: "power_method (power ?s) = dbus \<and>
      power_method (power (step 4 False example_config (\<lambda>_. Map.empty) (AcCallback []) ?s)) \<noteq> dbus"
    by (simp add: handle_ac_callback_def handle_ac_callback_try_def extract_online_def)
  from method_leaves_dbus_only_by_malformed
    [of 4 example_config "\<lambda>_. Map.empty"
      "\<lparr>on_battery_first = False, cpu_usage = 0, on_battery_second = False\<rparr>" ?s
      False "AcCallback []" "[]"] left
  show ?thesis by blast
qed

subsection \<open>The writes of one pass of the control loop\<close>



subsection \<open>The package power limit register\<close>

lemma calc_reg_values_source_pkg:
  assumes "calc_reg_values_source hw cfg ps st = Inr st'"
  shows "\<exists>Y1 Z1 Y2 Z2.
      calc_time_window_vars hw (PL1_Duration_s (section_of cfg ps)) = Inr (Y1, Z1) \<and>
      calc_time_window_vars hw (PL2_Duration_s (section_of cfg ps)) = Inr (Y2, Z2) \<and>
      fst st' ps MSR_PKG_POWER_LIMIT = Some
        (((((py_round (PL1_Tdp_W (section_of cfg ps) / power_unit_of hw) OR push_bit 15 1)
            OR push_bit 17 (int Y1 OR push_bit 5 (int Z1)))
            OR push_bit 32 (py_round (PL2_Tdp_W (section_of cfg ps) / power_unit_of hw)))
            OR push_bit 47 1) OR push_bit 49 (int Y2 OR push_bit 5 (int Z2)))"
  using assms unfolding calc_reg_values_source_def Let_def
  by (auto split: sum.splits prod.splits option.splits if_splits)

lemma calc_reg_values_source_other:
  assumes "calc_reg_values_source hw cfg ps st = Inr st'" "ps' \<noteq> ps"
  shows "fst st' ps' = fst st ps'"
  using assms unfolding calc_reg_values_source_def Let_def
  by (auto split: sum.splits prod.splits option.splits if_splits)

lemma calc_reg_values_pkg:
  assumes "calc_reg_values hw cfg rng = Inr (regs, rng')"
  shows "\<exists>Y1 Z1 Y2 Z2.
      calc_time_window_vars hw (PL1_Duration_s (section_of cfg ps)) = Inr (Y1, Z1) \<and>
      calc_time_window_vars hw (PL2_Duration_s (section_of cfg ps)) = Inr (Y2, Z2) \<and>
      regs ps MSR_PKG_POWER_LIMIT = Some
        (((((py_round (PL1_Tdp_W (section_of cfg ps) / power_unit_of hw) OR push_bit 15 1)
            OR push_bit 17 (int Y1 OR push_bit 5 (int Z1)))
            OR push_bit 32 (py_round (PL2_Tdp_W (section_of cfg ps) / power_unit_of hw)))
            OR push_bit 47 1) OR push_bit 49 (int Y2 OR push_bit 5 (int Z2)))"
proof -
  from assms obtain st1 where
    ac: "calc_reg_values_source hw cfg AC (\<lambda>_. Map.empty, rng) = Inr st1" and
    bat: "calc_reg_values_source hw cfg BATTERY st1 = Inr (regs, rng')"
    by (auto simp: calc_reg_values_def split: sum.splits)
  show ?thesis
  proof (cases ps)
    case AC
    from calc_reg_values_source_other[OF bat, of AC] have "regs AC = fst st1 AC" by simp
    with calc_reg_values_source_pkg[OF ac] AC show ?thesis by simp
  next
    case BATTERY
    with calc_reg_values_source_pkg[OF bat] show ?thesis by simp
  qed
qed

text \<open>
  C9. Whenever \<open>calc_reg_values\<close> succeeds, the \<open>MSR_PKG_POWER_LIMIT\<close> value of either
  power source has bit 15 and bit 47 set: both enable bits are joined in by \<open>OR\<close>
  whatever the configuration.
\<close>

theorem pkg_power_limit_enabled:
  assumes "calc_reg_values hw cfg rng = Inr (regs, rng')"
  shows "\<exists>v. regs ps MSR_PKG_POWER_LIMIT = Some v \<and> bit v 15 \<and> bit v 47"
proof -
  from calc_reg_values_pkg[OF assms, of ps] obtain a b c d where
    "regs ps MSR_PKG_POWER_LIMIT = Some (((((a OR push_bit 15 1) OR b) OR c) OR push_bit 47 1) OR d)"
    by blast
  moreover have "bit (((((a OR push_bit 15 1) OR b) OR c) OR push_bit 47 1) OR d) 15"
    by (simp add: bit_or_iff bit_push_bit_iff)
  moreover have "bit (((((a OR push_bit 15 1) OR b) OR c) OR push_bit 47 1) OR d) 47"
    by (simp add: bit_or_iff bit_push_bit_iff)
  ultimately show ?thesis by blast
qed

lemma example_regs_computed:
  "\<exists>regs rng'. calc_reg_values example_msr example_config TRIP_TEMP_RANGE_init = Inr (regs, rng')"
proof -
  have "\<not> isl (calc_reg_values example_msr example_config TRIP_TEMP_RANGE_init)"
    by code_simp
  then show ?thesis
    by (cases "calc_reg_values example_msr example_config TRIP_TEMP_RANGE_init") auto
qed

theorem pkg_power_limit_enabled_witness:
  "\<exists>regs rng' v. calc_reg_values example_msr example_config TRIP_TEMP_RANGE_init = Inr (regs, rng') \<and>
     regs BATTERY MSR_PKG_POWER_LIMIT = Some v \<and> bit v 15 \<and> bit v 47"
proof -
  from example_regs_computed obtain regs rng' where
    run: "calc_reg_values example_msr example_config TRIP_TEMP_RANGE_init = Inr (regs, rng')"
    by blast
  from pkg_power_limit_enabled [OF run, of BATTERY] run show ?thesis by blast
qed

lemma pkg_fields:
  fixes P1 Y1 Z1 P2 Y2 Z2 :: int
  defines "v \<equiv> (((((take_bit 15 P1 OR push_bit 15 1)
                 OR push_bit 17 (take_bit 5 Y1 OR push_bit 5 (take_bit 2 Z1)))
                 OR push_bit 32 (take_bit 15 P2)) OR push_bit 47 1)
                 OR push_bit 49 (take_bit 5 Y2 OR push_bit 5 (take_bit 2 Z2)))"
  shows "take_bit 15 v = take_bit 15 P1"
    and "bit v 15" and "\<not> bit v 16"
    and "take_bit 7 (drop_bit 17 v) = take_bit 5 Y1 OR push_bit 5 (take_bit 2 Z1)"
    and "take_bit 5 (drop_bit 17 v) = take_bit 5 Y1"
    and "take_bit 2 (drop_bit 22 v) = take_bit 2 Z1"
    and "take_bit 8 (drop_bit 24 v) = 0"
    and "take_bit 15 (drop_bit 32 v) = take_bit 15 P2"
    and "bit v 47" and "\<not> bit v 48"
    and "take_bit 7 (drop_bit 49 v) = take_bit 5 Y2 OR push_bit 5 (take_bit 2 Z2)"
    and "take_bit 5 (drop_bit 49 v) = take_bit 5 Y2"
    and "take_bit 2 (drop_bit 54 v) = take_bit 2 Z2"
    and "drop_bit 56 v = 0"
proof -
  show "take_bit 15 v = take_bit 15 P1"
    unfolding v_def by (simp add: take_bit_push_bit)
  show "bit v 15"
    unfolding v_def by (simp add: bit_or_iff bit_push_bit_iff)
  show "\<not> bit v 16"
    unfolding v_def by (simp add: bit_or_iff bit_push_bit_iff bit_take_bit_iff)
  show "take_bit 7 (drop_bit 17 v) = take_bit 5 Y1 OR push_bit 5 (take_bit 2 Z1)"
    unfolding v_def by (simp add: take_bit_push_bit drop_bit_push_bit drop_bit_take_bit)
  show "take_bit 5 (drop_bit 17 v) = take_bit 5 Y1"
    unfolding v_def by (simp add: take_bit_push_bit drop_bit_push_bit drop_bit_take_bit)
  show "take_bit 2 (drop_bit 22 v) = take_bit 2 Z1"
    unfolding v_def by (simp add: take_bit_push_bit drop_bit_push_bit drop_bit_take_bit)
  show "take_bit 8 (drop_bit 24 v) = 0"
    unfolding v_def by (simp add: take_bit_push_bit drop_bit_push_bit drop_bit_take_bit)
  show "take_bit 15 (drop_bit 32 v) = take_bit 15 P2"
    unfolding v_def by (simp add: take_bit_push_bit drop_bit_push_bit drop_bit_take_bit)
  show "bit v 47"
    unfolding v_def by (simp add: bit_or_iff bit_push_bit_iff)
  show "\<not> bit v 48"
    unfolding v_def by (simp add: bit_or_iff bit_push_bit_iff bit_take_bit_iff)
  show "take_bit 7 (drop_bit 49 v) = take_bit 5 Y2 OR push_bit 5 (take_bit 2 Z2)"
    unfolding v_def by (simp add: take_bit_push_bit drop_bit_push_bit drop_bit_take_bit)
  show "take_bit 5 (drop_bit 49 v) = take_bit 5 Y2"
    unfolding v_def by (simp add: take_bit_push_bit drop_bit_push_bit drop_bit_take_bit)
  show "take_bit 2 (drop_bit 54 v) = take_bit 2 Z2"
    unfolding v_def by (simp add: take_bit_push_bit drop_bit_push_bit drop_bit_take_bit)
  show "drop_bit 56 v = 0"
    unfolding v_def by (simp add: take_bit_push_bit drop_bit_push_bit drop_bit_take_bit)
qed

text \<open>
  C2, as amended. When the quantized PL1 and PL2 values lie in \<open>[0, 2 ^ 15)\<close>, the
  \<open>MSR_PKG_POWER_LIMIT\<close> value has the quantized PL1 in bits 0 to 14, bit 15 set, the PL1
  time-window code \<open>Y | (Z << 5)\<close> in bits 17 to 23 (\<open>Y\<close> in bits 17 to 21, \<open>Z\<close> in
  bits 22 to 23), the quantized PL2 in bits 32 to 46, bit 47 set, the PL2 time-window
  code in bits 49 to 55 (\<open>Y\<close> in bits 49 to 53, \<open>Z\<close> in bits 54 to 55), and every other
  bit (16, 24 to 31, 48, 56 and above) clear.
\<close>

theorem pkg_power_limit_layout:
  assumes run: "calc_reg_values hw cfg rng = Inr (regs, rng')"
    and PL1: "PL1 = py_round (PL1_Tdp_W (section_of cfg ps) / power_unit_of hw)"
    and PL2: "PL2 = py_round (PL2_Tdp_W (section_of cfg ps) / power_unit_of hw)"
    and r1: "0 \<le> PL1" "PL1 < 2 ^ 15" and r2: "0 \<le> PL2" "PL2 < 2 ^ 15"
  shows "\<exists>Y1 Z1 Y2 Z2 v.
      calc_time_window_vars hw (PL1_Duration_s (section_of cfg ps)) = Inr (Y1, Z1) \<and>
      calc_time_window_vars hw (PL2_Duration_s (section_of cfg ps)) = Inr (Y2, Z2) \<and>
      regs ps MSR_PKG_POWER_LIMIT = Some v \<and>
      take_bit 15 v = PL1 \<and> bit v 15 \<and> \<not> bit v 16 \<and>
      take_bit 7 (drop_bit 17 v) = (int Y1 OR push_bit 5 (int Z1)) \<and>
      take_bit 5 (drop_bit 17 v) = int Y1 \<and> take_bit 2 (drop_bit 22 v) = int Z1 \<and>
      take_bit 8 (drop_bit 24 v) = 0 \<and>
      take_bit 15 (drop_bit 32 v) = PL2 \<and> bit v 47 \<and> \<not> bit v 48 \<and>
      take_bit 7 (drop_bit 49 v) = (int Y2 OR push_bit 5 (int Z2)) \<and>
      take_bit 5 (drop_bit 49 v) = int Y2 \<and> take_bit 2 (drop_bit 54 v) = int Z2 \<and>
      drop_bit 56 v = 0"
proof -
  from calc_reg_values_pkg[OF run, of ps] obtain Y1 Z1 Y2 Z2 where
    tw1: "calc_time_window_vars hw (PL1_Duration_s (section_of cfg ps)) = Inr (Y1, Z1)" and
    tw2: "calc_time_window_vars hw (PL2_Duration_s (section_of cfg ps)) = Inr (Y2, Z2)" and
    v: "regs ps MSR_PKG_POWER_LIMIT = Some
        (((((PL1 OR push_bit 15 1) OR push_bit 17 (int Y1 OR push_bit 5 (int Z1)))
            OR push_bit 32 PL2) OR push_bit 47 1) OR push_bit 49 (int Y2 OR push_bit 5 (int Z2)))"
    unfolding PL1 PL2 by blast
  have p1: "take_bit 15 PL1 = PL1" and p2: "take_bit 15 PL2 = PL2"
    using r1 r2 by (simp_all add: take_bit_int_eq_self)
  from calc_time_window_vars_range[OF tw1]
  have y1: "take_bit 5 (int Y1) = int Y1" and z1: "take_bit 2 (int Z1) = int Z1"
    by (simp_all add: take_bit_int_eq_self)
  from calc_time_window_vars_range[OF tw2]
  have y2: "take_bit 5 (int Y2) = int Y2" and z2: "take_bit 2 (int Z2) = int Z2"
    by (simp_all add: take_bit_int_eq_self)
  note f = pkg_fields[of PL1 "int Y1" "int Z1" PL2 "int Y2" "int Z2", unfolded p1 p2 y1 z1 y2 z2]
  from tw1 tw2 v f show ?thesis by blast
qed

theorem pkg_power_limit_layout_witness:
  "\<exists>regs rng' v.
     calc_reg_values example_msr example_config TRIP_TEMP_RANGE_init = Inr (regs, rng') \<and>
     regs AC MSR_PKG_POWER_LIMIT = Some v \<and>
     take_bit 15 v = 352 \<and> bit v 15 \<and> \<not> bit v 16 \<and>
     take_bit 5 (drop_bit 17 v) = int 14 \<and> take_bit 2 (drop_bit 22 v) = int 3 \<and>
     take_bit 8 (drop_bit 24 v) = 0 \<and>
     take_bit 15 (drop_bit 32 v) = 352 \<and> bit v 47 \<and> \<not> bit v 48 \<and>
     take_bit 5 (drop_bit 49 v) = int 1 \<and> take_bit 2 (drop_bit 54 v) = int 1 \<and>
     drop_bit 56 v = 0"
proof -
  from example_regs_computed obtain regs rng' where
    run: "calc_reg_values example_msr example_config TRIP_TEMP_RANGE_init = Inr (regs, rng')"
    by blast
  have PL1: "352 = py_round (PL1_Tdp_W (section_of example_config AC) / power_unit_of example_msr)"
    by code_simp
  have PL2: "352 = py_round (PL2_Tdp_W (section_of example_config AC) / power_unit_of example_msr)"
    by code_simp
  have tw1: "calc_time_window_vars example_msr (PL1_Duration_s (section_of example_config AC)) = Inr (14, 3)"
    by code_simp
  have tw2: "calc_time_window_vars example_msr (PL2_Duration_s (section_of example_config AC)) = Inr (1, 1)"
    by code_simp
  have bounds: "(0::int) \<le> 352" "(352::int) < 2 ^ 15"
    by simp_all
  from pkg_power_limit_layout [OF run PL1 PL2 bounds bounds] obtain Y1 Z1 Y2 Z2 v where
    "calc_time_window_vars example_msr (PL1_Duration_s (section_of example_config AC)) = Inr (Y1, Z1)"
    "calc_time_window_vars example_msr (PL2_Duration_s (section_of example_config AC)) = Inr (Y2, Z2)"
    and fields: "regs AC MSR_PKG_POWER_LIMIT = Some v"
      "take_bit 15 v = 352" "bit v 15" "\<not> bit v 16"
      "take_bit 5 (drop_bit 17 v) = int Y1" "take_bit 2 (drop_bit 22 v) = int Z1"
      "take_bit 8 (drop_bit 24 v) = 0"
      "take_bit 15 (drop_bit 32 v) = 352" "bit v 47" "\<not> bit v 48"
      "take_bit 5 (drop_bit 49 v) = int Y2" "take_bit 2 (drop_bit 54 v) = int Z2"
      "drop_bit 56 v = 0"
    by blast
  with tw1 tw2 have "Y1 = 14" "Z1 = 3" "Y2 = 1" "Z2 = 1"
    by simp_all
  with run fields show ?thesis by blast
qed

text \<open>
  The layout as the claim states it fails on \<open>high_power_config\<close>. On AC the duration
  of 28 s is encoded as \<open>Y = 14\<close>, \<open>Z = 3\<close>, so the time-window code is 110: bits 17
  to 21 hold only 14, and bits 22 and 23, outside every listed range, are set. On
  battery the quantized PL1 is 40000, which does not fit bits 0 to 14: they hold 7232.
\<close>

theorem pkg_power_limit_layout_counterexample:
  "\<exists>regs rng' v_ac v_bat.
     calc_reg_values example_msr high_power_config TRIP_TEMP_RANGE_init = Inr (regs, rng') \<and>
     regs AC MSR_PKG_POWER_LIMIT = Some v_ac \<and>
     calc_time_window_vars example_msr (PL1_Duration_s (section_of high_power_config AC)) = Inr (14, 3) \<and>
     (int 14 OR push_bit 5 (int 3)) = 110 \<and>
     take_bit 5 (drop_bit 17 v_ac) = 14 \<and> bit v_ac 22 \<and> bit v_ac 23 \<and>
     regs BATTERY MSR_PKG_POWER_LIMIT = Some v_bat \<and>
     py_round (PL1_Tdp_W (section_of high_power_config BATTERY) / power_unit_of example_msr) = 40000 \<and>
     take_bit 15 v_bat = 7232"
proof -
  have computed: "map_sum id (\<lambda>(regs, rng). (regs AC MSR_PKG_POWER_LIMIT, regs BATTERY MSR_PKG_POWER_LIMIT))
     (calc_reg_values example_msr high_power_config TRIP_TEMP_RANGE_init) =
     Inr (Some 0x42816000DC8160, Some 0x42816000DC9C40)"
    by code_simp
  then obtain regs rng' where
    run: "calc_reg_values example_msr high_power_config TRIP_TEMP_RANGE_init = Inr (regs, rng')"
    and ac: "regs AC MSR_PKG_POWER_LIMIT = Some 0x42816000DC8160"
    and bat: "regs BATTERY MSR_PKG_POWER_LIMIT = Some 0x42816000DC9C40"
    by (cases "calc_reg_values example_msr high_power_config TRIP_TEMP_RANGE_init") auto
  have rest:
    "calc_time_window_vars example_msr (PL1_Duration_s (section_of high_power_config AC)) = Inr (14, 3)
     \<and> (int 14 OR push_bit 5 (int 3)) = 110
     \<and> take_bit 5 (drop_bit 17 (0x42816000DC8160::int)) = 14
     \<and> bit (0x42816000DC8160::int) 22 \<and> bit (0x42816000DC8160::int) 23
     \<and> py_round (PL1_Tdp_W (section_of high_power_config BATTERY) / power_unit_of example_msr) = 40000
     \<and> take_bit 15 (0x42816000DC9C40::int) = 7232"
    by code_simp
  from run ac bat rest show ?thesis by blast
qed

subsection \<open>The trip temperature after start-up\<close>

text \<open>
  C3. The claim is that after the configuration is loaded and the registers are
  computed, the trip temperature of each power source lies in
  \<open>[40, min(97, critical_temp - 3)]\<close>. \<open>load_config\<close> clamps with the range as it is
  before \<open>calc_reg_values\<close> lowers its upper end, and nothing clamps again. On a machine
  whose critical temperature is 95, with the shipped configuration: the range becomes
  \<open>(40, 92)\<close>, the trip temperature on AC stays 95, and the temperature-target register
  is computed from the offset \<open>95 - 95 = 0\<close>.
\<close>

theorem startup_trip_temp_above_adjusted_range:
  "\<exists>cfg regs.
     startup low_tjmax_msr example_config = Inr (cfg, regs, (40, 92)) \<and>
     readmsr low_tjmax_msr 0x1a2 16 23 = 95 \<and>
     Trip_Temp_C (section_of cfg AC) = 95 \<and>
     \<not> Trip_Temp_C (section_of cfg AC) \<le> of_int (min 97 (readmsr low_tjmax_msr 0x1a2 16 23 - 3)) \<and>
     regs AC MSR_TEMPERATURE_TARGET = Some 0"
proof -
  have computed: "map_sum id
       (\<lambda>(cfg, regs, rng). (Trip_Temp_C (section_of cfg AC), regs AC MSR_TEMPERATURE_TARGET, rng))
       (startup low_tjmax_msr example_config) = Inr (95, Some 0, (40, 92))"
    by code_simp
  then obtain cfg regs where
    "startup low_tjmax_msr example_config = Inr (cfg, regs, (40, 92))"
    "Trip_Temp_C (section_of cfg AC) = 95" "regs AC MSR_TEMPERATURE_TARGET = Some 0"
    by (cases "startup low_tjmax_msr example_config") auto
  moreover have crit: "readmsr low_tjmax_msr 0x1a2 16 23 = 95"
    by code_simp
  moreover have "\<not> (95::rat) \<le> of_int (min 97 (95 - 3))"
    by simp
  ultimately show ?thesis
    by (metis crit)
qed

end
